theory Spec2Isabelle
  imports Main "HOL-Library.Sublist"
begin

section \<open>Render options\<close>

text \<open>
  The class \<open>config_render_options\<close> of \<open>hocon/config_render_options.hpp\<close> keeps four
  private booleans (lines 119--124). The header declares the constructor and \<open>concise\<close>;
  their bodies are in a file that is not part of the sources.
\<close>

record config_render_options =
  origin_comments :: bool
  comments :: bool
  formatted :: bool
  json :: bool

text \<open>
  Modelled from the spec: the body of the constructor
  \<open>config_render_options(bool origin_comments, bool comments, bool formatted, bool json)\<close>
  is missing; a \<open>render_options\<close> record holds the four toggles, so each argument is
  stored in the toggle of the same name.
\<close>

definition make_config_render_options :: "bool \<Rightarrow> bool \<Rightarrow> bool \<Rightarrow> bool \<Rightarrow> config_render_options" where
  "make_config_render_options oc c f j =
     \<lparr>origin_comments = oc, comments = c, formatted = f, json = j\<rparr>"

text \<open>
  The default arguments of the declaration (header, lines 24--25) are all \<open>true\<close>.
\<close>

definition default_config_render_options :: config_render_options where
  "default_config_render_options = make_config_render_options True True True True"


text \<open>
  Modelled from the spec: the renderer is missing. The spec gives the meaning of the
  toggles: \<open>json\<close> suppresses the extensions that are not JSON, and comments independently
  of it may still produce output that is not JSON. The header says the same of
  \<open>set_json\<close> (enabling comments gives invalid JSON despite \<open>json\<close> being set), and names
  the two toggles that put comments in a rendering: \<open>comments\<close> for those written by
  hand and \<open>origin_comments\<close> for the generated ones. So a rendering contains comments
  when either of the two is on, and it is valid JSON only with \<open>json\<close> on and no comments.
\<close>

definition rendering_contains_comments :: "config_render_options \<Rightarrow> bool" where
  "rendering_contains_comments opts = (comments opts \<or> origin_comments opts)"

definition rendering_valid_json :: "config_render_options \<Rightarrow> bool" where
  "rendering_valid_json opts = (json opts \<and> \<not> rendering_contains_comments opts)"

section \<open>Data of the parse surface\<close>

datatype config_syntax = JSON | CONF | UNSPECIFIED

text \<open>
  Modelled from the spec: the includer classes (\<open>config_includer\<close>,
  \<open>simple_includer\<close>, \<open>config::default_includer\<close>) are missing. An includer is
  either absent (a null pointer), the default one, one installed by the application, the
  composition of an includer with a fallback, or an includer completed to a full one.
\<close>

datatype includer =
    Null_includer
  | Default_includer
  | App_includer string
  | With_fallback includer includer
  | Full_includer includer

text \<open>
  Modelled from the spec: \<open>config_parse_options\<close> (its header is missing) carries the
  preferred syntax, the allow-missing flag, an optional origin description and a
  composable includer; mutators return modified copies.
\<close>

record config_parse_options =
  get_syntax :: config_syntax
  get_allow_missing :: bool
  get_origin_description :: "string option"
  get_includer :: includer

definition set_syntax :: "config_parse_options \<Rightarrow> config_syntax \<Rightarrow> config_parse_options" where
  "set_syntax opts s = opts\<lparr>get_syntax := s\<rparr>"

definition set_includer :: "config_parse_options \<Rightarrow> includer \<Rightarrow> config_parse_options" where
  "set_includer opts i = opts\<lparr>get_includer := i\<rparr>"

text \<open>
  Modelled from the spec: \<open>append_includer\<close> is missing; the engine composes the
  installed includer with the appended one, the appended one being the fallback. With no
  includer installed the appended one is taken alone.
\<close>

definition append_includer :: "config_parse_options \<Rightarrow> includer \<Rightarrow> config_parse_options" where
  "append_includer opts i =
     (if get_includer opts = Null_includer then set_includer opts i
      else set_includer opts (With_fallback (get_includer opts) i))"

text \<open>
  Modelled from the spec: \<open>simple_includer::make_full\<close> is missing; the composed
  includer "is completed to a full includer".
\<close>

definition make_full :: "includer \<Rightarrow> includer" where
  "make_full i = Full_includer i"

text \<open>Whether includer \<open>i\<close> is \<open>d\<close> or can hand a request on to \<open>d\<close>.\<close>

fun reaches :: "includer \<Rightarrow> includer \<Rightarrow> bool" where
  "reaches d (With_fallback a b) = (With_fallback a b = d \<or> reaches d a \<or> reaches d b)"
| "reaches d (Full_includer a) = (Full_includer a = d \<or> reaches d a)"
| "reaches d i = (i = d)"

text \<open>
  An origin is built in this file from a description only
  (\<open>simple_config_origin(description)\<close>) and read through \<open>description()\<close>.
\<close>

datatype config_origin = Simple_config_origin (description: string)

text \<open>
  Values as this file sees them: a \<open>simple_config_object\<close> with its origin and entries
  (line 231 builds one with no entries), or a value whose dynamic type is not a
  \<open>config_object\<close>, of which \<open>force_parsed_to_object\<close> reads the origin and
  \<open>value_type_name()\<close>.
\<close>

datatype config_value =
    is_config_object: Simple_config_object config_origin "(string \<times> config_value) list"
  | Non_object_value config_origin (value_type_name: string)

fun origin :: "config_value \<Rightarrow> config_origin" where
  "origin (Simple_config_object og m) = og"
| "origin (Non_object_value og n) = og"

text \<open>
  Syntax nodes: \<open>config_node_object(children)\<close> and \<open>config_node_root(children, origin)\<close>
  are built at lines 285--286; any other node comes from the document parser.
\<close>

datatype config_node =
    Config_node_object "config_node list"
  | Config_node_root "config_node list" config_origin
  | Other_node string

datatype config_document = Simple_config_document config_node config_parse_options

text \<open>
  The exceptions thrown in \<open>parseable.cc\<close>, by constructor and arguments. The classes of
  \<open>hocon/config_exception.hpp\<close> are taken to derive from \<open>std::runtime_error\<close>, so that
  the handlers of lines 229 and 282 catch every one of them: the spec has the not-found
  source, whose reader throws \<open>config_exception\<close>, parse to an empty object when the
  missing-file policy allows, which is the handler of line 229 catching it.
\<close>

datatype config_error =
    Runtime_error string
  | Config_exception string
  | Io_exception config_origin string
  | Parse_exception config_origin string
  | Wrong_type_exception config_origin string string string

text \<open>The four kinds of source defined in this file, with their private members.\<close>

datatype source =
    Parseable_file string
  | Parseable_string string
  | Parseable_resources string
  | Parseable_not_found string string

datatype parseable_class =
  Class_parseable_file | Class_parseable_string | Class_parseable_resources | Class_parseable_not_found

fun dynamic_class :: "source \<Rightarrow> parseable_class" where
  "dynamic_class (Parseable_file i) = Class_parseable_file"
| "dynamic_class (Parseable_string s) = Class_parseable_string"
| "dynamic_class (Parseable_resources r) = Class_parseable_resources"
| "dynamic_class (Parseable_not_found w m) = Class_parseable_not_found"

text \<open>
  A \<open>parseable\<close>: the subclass members, \<open>_initial_options\<close>, \<open>_initial_origin\<close>, and the
  current directory kept by its include context.
\<close>

record parseable =
  members :: source
  initial_options :: config_parse_options
  initial_origin :: config_origin
  cur_dir :: string

text \<open>
  The per-thread slot \<open>parse_stack\<close> (line 182): \<open>None\<close> when \<open>get()\<close> gives a null pointer,
  otherwise the vector of sources being parsed, oldest first.
\<close>

type_synonym thread = "parseable list option"

datatype token_iterator = Token_iterator config_origin string config_syntax

text \<open>
  What \<open>parseable.cc\<close> calls and does not define, taken as parameters:
  \<^item> \<open>open_file\<close>: the file system behind \<open>std::ifstream::open\<close>; \<open>None\<close> when the file
    cannot be opened, else its content (a stream is modelled by its content);
  \<^item> \<open>document_parser_parse\<close>: \<open>config_document_parser::parse\<close> on the tokens of a stream;
    it is handed no include context;
  \<^item> \<open>config_parser_parse\<close>: \<open>config_parser::parse\<close>; it is handed the include context of
    the source and may enter \<open>parse\<close> again on the same thread, so it takes the thread's
    slot and returns it;
  \<^item> \<open>hocon_what\<close>: \<open>what()\<close> of the library's exception classes;
  \<^item> \<open>typeid_name\<close>: \<open>typeid(*this).name()\<close> for each class of source;
  \<^item> \<open>default_parse_options\<close>: the default-constructed \<open>config_parse_options()\<close>;
  \<^item> \<open>context_parse_options\<close>: \<open>_include_context->parse_options()\<close>.
\<close>

record collaborators =
  open_file :: "string \<Rightarrow> string option"
  document_parser_parse ::
    "token_iterator \<Rightarrow> config_origin \<Rightarrow> config_parse_options \<Rightarrow> config_error + config_node"
  config_parser_parse ::
    "config_node \<Rightarrow> config_origin \<Rightarrow> config_parse_options \<Rightarrow> parseable \<Rightarrow> thread
       \<Rightarrow> (config_error + config_value) \<times> thread"
  hocon_what :: "config_error \<Rightarrow> string"
  typeid_name :: "parseable_class \<Rightarrow> string"
  default_parse_options :: config_parse_options
  context_parse_options :: "parseable \<Rightarrow> config_parse_options"

section \<open>The functions of parseable.cc\<close>

definition MAX_INCLUDE_DEPTH :: nat where
  "MAX_INCLUDE_DEPTH = 50"

text \<open>
  \<open>ends_with\<close> (lines 21--27): \<open>compare(pos, len, ending) == 0\<close> holds when the \<open>len\<close>
  characters from \<open>pos\<close> are \<open>ending\<close>.
\<close>

definition ends_with :: "string \<Rightarrow> string \<Rightarrow> bool" where
  "ends_with fullString ending =
     (if length fullString \<ge> length ending
      then take (length ending) (drop (length fullString - length ending) fullString) = ending
      else False)"

definition syntax_from_extension :: "string \<Rightarrow> config_syntax" where
  "syntax_from_extension name =
     (if ends_with name ''.json'' then JSON
      else if ends_with name ''.conf'' then CONF
      else UNSPECIFIED)"

text \<open>
  \<open>guess_syntax\<close> is virtual: \<open>parseable_file\<close> overrides it (lines 341--343), the other
  sources keep the base version (lines 122--124).
\<close>

fun guess_syntax :: "source \<Rightarrow> config_syntax" where
  "guess_syntax (Parseable_file i) = syntax_from_extension i"
| "guess_syntax (Parseable_string s) = UNSPECIFIED"
| "guess_syntax (Parseable_resources r) = UNSPECIFIED"
| "guess_syntax (Parseable_not_found w m) = UNSPECIFIED"

definition content_type :: "source \<Rightarrow> config_syntax" where
  "content_type s = UNSPECIFIED"

definition fixup_options :: "source \<Rightarrow> config_parse_options \<Rightarrow> config_parse_options" where
  "fixup_options s base_options =
     (let syn = get_syntax base_options;
          syn = (if syn = UNSPECIFIED then guess_syntax s else syn);
          syn = (if syn = UNSPECIFIED then CONF else syn);
          modified = set_syntax base_options syn;
          modified = append_includer modified Default_includer;
          modified = set_includer modified (make_full (get_includer modified))
      in modified)"

fun create_origin :: "source \<Rightarrow> config_origin" where
  "create_origin (Parseable_file i) = Simple_config_origin (''file: '' @ i)"
| "create_origin (Parseable_string s) = Simple_config_origin ''string''"
| "create_origin (Parseable_resources r) = Simple_config_origin r"
| "create_origin (Parseable_not_found w m) = Simple_config_origin w"

text \<open>
  \<open>post_construct\<close> (lines 74--84). The include context is made fresh; its current
  directory is set only by the constructor of \<open>parseable_file\<close>, and is taken to be the
  empty string before that.
\<close>

definition post_construct :: "source \<Rightarrow> config_parse_options \<Rightarrow> parseable" where
  "post_construct s base_options =
     (let opts = fixup_options s base_options
      in \<lparr>members = s,
          initial_options = opts,
          initial_origin =
            (case get_origin_description opts of
               Some d \<Rightarrow> Simple_config_origin d
             | None \<Rightarrow> create_origin s),
          cur_dir = []\<rparr>)"

text \<open>
  \<open>path.rfind(sep, path.length())\<close>: the search runs from the last position down to the
  first and stops at the first position holding \<open>sep\<close>; \<open>None\<close> stands for \<open>npos\<close>.
\<close>

fun rfind_below :: "string \<Rightarrow> char \<Rightarrow> nat \<Rightarrow> nat option" where
  "rfind_below path sep 0 = None"
| "rfind_below path sep (Suc k) = (if path ! k = sep then Some k else rfind_below path sep k)"

definition rfind :: "string \<Rightarrow> char \<Rightarrow> nat option" where
  "rfind path sep = rfind_below path sep (length path)"

definition substr :: "string \<Rightarrow> nat \<Rightarrow> nat \<Rightarrow> string" where
  "substr s pos n = take n (drop pos s)"

definition separate_filepath :: "string \<Rightarrow> string \<times> string" where
  "separate_filepath path =
     (let sep = CHR ''/''
      in case rfind path sep of
           Some i \<Rightarrow> (substr path 0 (i + 1), substr path (i + 1) (length path - i))
         | None \<Rightarrow> ([], path))"

definition set_cur_dir :: "parseable \<Rightarrow> string \<Rightarrow> parseable" where
  "set_cur_dir p dir = p\<lparr>cur_dir := dir\<rparr>"

definition get_cur_dir :: "parseable \<Rightarrow> string" where
  "get_cur_dir p = cur_dir p"

definition new_file :: "string \<Rightarrow> config_parse_options \<Rightarrow> parseable" where
  "new_file input_file_path options =
     (let p = post_construct (Parseable_file input_file_path) options;
          (dir, name) = separate_filepath input_file_path
      in set_cur_dir p dir)"

definition new_string :: "string \<Rightarrow> config_parse_options \<Rightarrow> parseable" where
  "new_string s options = post_construct (Parseable_string s) options"

definition new_not_found :: "string \<Rightarrow> string \<Rightarrow> config_parse_options \<Rightarrow> parseable" where
  "new_not_found what_not_found message options =
     post_construct (Parseable_not_found what_not_found message) options"

definition relative_to :: "collaborators \<Rightarrow> parseable \<Rightarrow> string \<Rightarrow> parseable" where
  "relative_to env p file_name =
     (let resource =
            (if file_name \<noteq> [] \<and> CHR ''/'' = hd file_name then file_name
             else get_cur_dir p @ file_name)
      in new_file resource (context_parse_options env p))"

text \<open>\<open>to_string\<close> of a source (lines 145--147) is the name of its dynamic type.\<close>

definition to_string :: "collaborators \<Rightarrow> parseable \<Rightarrow> string" where
  "to_string env p = typeid_name env (dynamic_class (members p))"

text \<open>\<open>std::to_string\<close> on a non-negative \<open>int\<close>: its decimal digits.\<close>

fun std_to_string :: "nat \<Rightarrow> string" where
  "std_to_string n =
     (if n < 10 then [''0123456789'' ! n]
      else std_to_string (n div 10) @ [''0123456789'' ! (n mod 10)])"

declare std_to_string.simps [simp del]

text \<open>
  \<open>e.what()\<close>: the message given to \<open>std::runtime_error\<close>; for the library's own
  exception classes, whatever their constructors (not part of this file) composed.
\<close>

fun what :: "collaborators \<Rightarrow> config_error \<Rightarrow> string" where
  "what env (Runtime_error m) = m"
| "what env e = hocon_what env e"

text \<open>The readers (lines 330--335, 350--352, 364--366, 378--380).\<close>

fun reader :: "collaborators \<Rightarrow> source \<Rightarrow> config_error + string" where
  "reader env (Parseable_file i) =
     (case open_file env i of
        None \<Rightarrow> Inl (Runtime_error ''not found'')
      | Some content \<Rightarrow> Inr content)"
| "reader env (Parseable_string s) = Inr s"
| "reader env (Parseable_resources r) =
     Inl (Config_exception ''reader() should not be called on resources'')"
| "reader env (Parseable_not_found w m) = Inl (Config_exception m)"

subsection \<open>Parsing to a value\<close>

text \<open>\<open>raw_parse_value(stream, origin, options)\<close>, lines 255--261.\<close>

definition raw_parse_value_stream ::
  "collaborators \<Rightarrow> parseable \<Rightarrow> string \<Rightarrow> config_origin \<Rightarrow> config_parse_options \<Rightarrow> thread
     \<Rightarrow> (config_error + config_value) \<times> thread" where
  "raw_parse_value_stream env p stream og options st =
     (let tokens = Token_iterator og stream (get_syntax options)
      in case document_parser_parse env tokens og options of
           Inl e \<Rightarrow> (Inl e, st)
         | Inr document \<Rightarrow> config_parser_parse env document og options p st)"

text \<open>\<open>raw_parse_value(origin, options)\<close>, lines 240--253.\<close>

definition raw_parse_value ::
  "collaborators \<Rightarrow> parseable \<Rightarrow> config_origin \<Rightarrow> config_parse_options \<Rightarrow> thread
     \<Rightarrow> (config_error + config_value) \<times> thread" where
  "raw_parse_value env p og options st =
     (case reader env (members p) of
        Inl e \<Rightarrow> (Inl e, st)
      | Inr stream \<Rightarrow>
          (let cont_type = content_type (members p);
               options_with_content_type =
                 (if cont_type \<noteq> UNSPECIFIED then set_syntax options cont_type else options)
           in raw_parse_value_stream env p stream og options_with_content_type st))"

text \<open>\<open>parse_value(origin, final_options)\<close>, lines 226--238.\<close>

definition parse_value_origin ::
  "collaborators \<Rightarrow> parseable \<Rightarrow> config_origin \<Rightarrow> config_parse_options \<Rightarrow> thread
     \<Rightarrow> (config_error + config_value) \<times> thread" where
  "parse_value_origin env p og final_options st =
     (case raw_parse_value env p og final_options st of
        (Inr v, st') \<Rightarrow> (Inr v, st')
      | (Inl e, st') \<Rightarrow>
          (if get_allow_missing final_options
           then (Inr (Simple_config_object
                        (Simple_config_origin (description og @ '' (not found)'')) []), st')
           else (Inl (Io_exception og (what env e)), st')))"

text \<open>\<open>parse_value(base_options)\<close>, lines 216--224.\<close>

definition parse_value ::
  "collaborators \<Rightarrow> parseable \<Rightarrow> config_parse_options \<Rightarrow> thread
     \<Rightarrow> (config_error + config_value) \<times> thread" where
  "parse_value env p base_options st =
     (let options = fixup_options (members p) base_options;
          og = (case get_origin_description options of
                  Some d \<Rightarrow> Simple_config_origin d
                | None \<Rightarrow> initial_origin p)
      in parse_value_origin env p og options st)"

text \<open>\<open>parse_value()\<close>, lines 212--214.\<close>

definition parse_value_initial ::
  "collaborators \<Rightarrow> parseable \<Rightarrow> thread \<Rightarrow> (config_error + config_value) \<times> thread" where
  "parse_value_initial env p st = parse_value env p (initial_options p) st"

fun force_parsed_to_object :: "config_value \<Rightarrow> config_error + config_value" where
  "force_parsed_to_object (Simple_config_object og m) = Inr (Simple_config_object og m)"
| "force_parsed_to_object (Non_object_value og n) =
     Inl (Wrong_type_exception og [] ''object at file root'' n)"

text \<open>The trace of line 190: \<open>accumulate\<close> from the empty string, oldest source first.\<close>

definition stacktrace :: "collaborators \<Rightarrow> parseable list \<Rightarrow> string" where
  "stacktrace env pstack =
     foldl (\<lambda>s p. s @ [CHR 0x09] @ to_string env p @ [CHR 0x0A]) [] pstack"

text \<open>
  The scope guard of lines 198--203, run when \<open>parse\<close> is left by return or by
  exception: drop the last entry and release the vector when none is left. The slot is
  local to \<open>parse\<close>, so the code between push and pop reaches it only through nested
  calls of \<open>parse\<close>; a slot found empty or released here is outside what C++ defines and
  is left as it is.
\<close>

fun scope_exit :: "thread \<Rightarrow> thread" where
  "scope_exit None = None"
| "scope_exit (Some pstack) =
     (let popped = butlast pstack in if popped = [] then None else Some popped)"

text \<open>\<open>parse(options)\<close>, lines 181--206.\<close>

definition parse ::
  "collaborators \<Rightarrow> parseable \<Rightarrow> config_parse_options \<Rightarrow> thread
     \<Rightarrow> (config_error + config_value) \<times> thread" where
  "parse env p options st =
     (let pstack = (case st of None \<Rightarrow> [] | Some v \<Rightarrow> v)
      in if length pstack \<ge> MAX_INCLUDE_DEPTH
         then (Inl (Parse_exception (initial_origin p)
                      (''include statements nested more than '' @ std_to_string MAX_INCLUDE_DEPTH
                         @ '' times, you probably have a cycle in your includes. Trace:''
                         @ [CHR 0x0A] @ stacktrace env pstack)),
               Some pstack)
         else (case parse_value env p options (Some (pstack @ [p])) of
                 (Inl e, st') \<Rightarrow> (Inl e, scope_exit st')
               | (Inr v, st') \<Rightarrow> (force_parsed_to_object v, scope_exit st')))"

text \<open>\<open>parse()\<close>, lines 208--210: default-constructed options, no entry pushed.\<close>

definition parse_default ::
  "collaborators \<Rightarrow> parseable \<Rightarrow> thread \<Rightarrow> (config_error + config_value) \<times> thread" where
  "parse_default env p st =
     (case parse_value env p (default_parse_options env) st of
        (Inl e, st') \<Rightarrow> (Inl e, st')
      | (Inr v, st') \<Rightarrow> (force_parsed_to_object v, st'))"

subsection \<open>Parsing to a document\<close>

text \<open>\<open>raw_parse_document(stream, origin, options)\<close>, lines 310--315.\<close>

definition raw_parse_document_stream ::
  "collaborators \<Rightarrow> string \<Rightarrow> config_origin \<Rightarrow> config_parse_options
     \<Rightarrow> config_error + config_document" where
  "raw_parse_document_stream env stream og options =
     (let tokens = Token_iterator og stream (get_syntax options)
      in case document_parser_parse env tokens og options of
           Inl e \<Rightarrow> Inl e
         | Inr node \<Rightarrow> Inr (Simple_config_document node options))"

text \<open>\<open>raw_parse_document(origin, options)\<close>, lines 294--308.\<close>

definition raw_parse_document ::
  "collaborators \<Rightarrow> parseable \<Rightarrow> config_origin \<Rightarrow> config_parse_options
     \<Rightarrow> config_error + config_document" where
  "raw_parse_document env p og options =
     (case reader env (members p) of
        Inl e \<Rightarrow> Inl e
      | Inr stream \<Rightarrow>
          (let cont_type = content_type (members p);
               options_with_content_type =
                 (if cont_type \<noteq> UNSPECIFIED then set_syntax options cont_type else options)
           in raw_parse_document_stream env stream og options_with_content_type))"

text \<open>\<open>parse_document(origin, final_options)\<close>, lines 278--292.\<close>

definition parse_document_origin ::
  "collaborators \<Rightarrow> parseable \<Rightarrow> config_origin \<Rightarrow> config_parse_options
     \<Rightarrow> config_error + config_document" where
  "parse_document_origin env p og final_options =
     (case raw_parse_document env p og final_options of
        Inr d \<Rightarrow> Inr d
      | Inl e \<Rightarrow>
          (if get_allow_missing final_options
           then (let children = [] @ [Config_node_object []]
                 in Inr (Simple_config_document (Config_node_root children og) final_options))
           else Inl (Config_exception
                       (''exception loading '' @ description og @ '': '' @ what env e))))"

text \<open>\<open>parse_document(base_options)\<close>, lines 263--276.\<close>

definition parse_document ::
  "collaborators \<Rightarrow> parseable \<Rightarrow> config_parse_options \<Rightarrow> config_error + config_document" where
  "parse_document env p base_options =
     (let options = fixup_options (members p) base_options;
          og = (case get_origin_description options of
                  Some d \<Rightarrow> Simple_config_origin d
                | None \<Rightarrow> initial_origin p)
      in parse_document_origin env p og options)"

definition parse_config_document ::
  "collaborators \<Rightarrow> parseable \<Rightarrow> config_error + config_document" where
  "parse_config_document env p = parse_document env p (initial_options p)"

section \<open>Notions used to state the properties\<close>

text \<open>The depth of the per-thread stack; a released slot has depth zero.\<close>

definition depth :: "thread \<Rightarrow> nat" where
  "depth st = (case st of None \<Rightarrow> 0 | Some v \<Rightarrow> length v)"

subsection \<open>A concrete setting\<close>

text \<open>
  Two option values and one choice of collaborators, used to run the functions on
  concrete sources: a file system with two files, a document parser that rejects the
  text \<open>{\<close>, and a value parser that yields a list for the text \<open>[1]\<close> and an object for
  anything else.
\<close>

definition example_options :: config_parse_options where
  "example_options =
     \<lparr>get_syntax = UNSPECIFIED, get_allow_missing = True,
      get_origin_description = None, get_includer = Null_includer\<rparr>"

definition strict_options :: config_parse_options where
  "strict_options =
     \<lparr>get_syntax = UNSPECIFIED, get_allow_missing = False,
      get_origin_description = None, get_includer = App_includer ''app''\<rparr>"

definition labelled_options :: config_parse_options where
  "labelled_options = example_options\<lparr>get_origin_description := Some ''settings of the application''\<rparr>"

definition example_env :: collaborators where
  "example_env =
     \<lparr>open_file = (\<lambda>path. if path = ''/etc/app.conf'' then Some ''a = 1''
                        else if path = ''/etc/list.json'' then Some ''[1]''
                        else None),
      document_parser_parse = (\<lambda>tokens og opts.
         case tokens of Token_iterator og' stream syn \<Rightarrow>
           if stream = ''{'' then Inl (Parse_exception og ''expecting a close brace'')
           else Inr (Config_node_root [Other_node stream] og)),
      config_parser_parse = (\<lambda>node og opts p st.
         (if node = Config_node_root [Other_node ''[1]''] og then Inr (Non_object_value og ''list'')
          else Inr (Simple_config_object og []), st)),
      hocon_what = (\<lambda>e. case e of
           Config_exception m \<Rightarrow> m
         | Io_exception og m \<Rightarrow> description og @ '': '' @ m
         | Parse_exception og m \<Rightarrow> description og @ '': '' @ m
         | Wrong_type_exception og path expected actual \<Rightarrow> description og @ '': '' @ actual
         | Runtime_error m \<Rightarrow> ''std::runtime_error''),
      typeid_name = (\<lambda>c. case c of
           Class_parseable_file \<Rightarrow> ''parseable_file''
         | Class_parseable_string \<Rightarrow> ''parseable_string''
         | Class_parseable_resources \<Rightarrow> ''parseable_resources''
         | Class_parseable_not_found \<Rightarrow> ''parseable_not_found''),
      default_parse_options = example_options\<lparr>get_syntax := CONF\<rparr>,
      context_parse_options = (\<lambda>p. set_includer (initial_options p) Null_includer)\<rparr>"

text \<open>
  A value parser for a file that includes \<open>db.conf\<close>: it enters \<open>parse\<close> on the source
  relative to the one being parsed, with the collaborators above.
\<close>

definition including_env :: collaborators where
  "including_env =
     example_env\<lparr>config_parser_parse := (\<lambda>node og opts p st.
        parse example_env (relative_to example_env p ''db.conf'') opts st)\<rparr>"

section \<open>Properties\<close>

subsection \<open>Auxiliary facts\<close>

lemmas opt_defs =
  fixup_options_def Let_def set_syntax_def set_includer_def append_includer_def make_full_def

lemma ends_with_suffix: "ends_with f e = suffix e f"
  unfolding ends_with_def suffix_def
  by auto (metis append_take_drop_id)

lemma fixup_syntax:
  "get_syntax (fixup_options s base) =
     (if get_syntax base \<noteq> UNSPECIFIED then get_syntax base
      else if guess_syntax s \<noteq> UNSPECIFIED then guess_syntax s else CONF)"
  by (simp add: opt_defs)

lemma fixup_allow_missing: "get_allow_missing (fixup_options s base) = get_allow_missing base"
  by (simp add: opt_defs)

lemma fixup_origin_description:
  "get_origin_description (fixup_options s base) = get_origin_description base"
  by (simp add: opt_defs)

lemma fixup_includer:
  "get_includer (fixup_options s base) =
     Full_includer (if get_includer base = Null_includer then Default_includer
                    else With_fallback (get_includer base) Default_includer)"
  by (simp add: opt_defs)

lemma rfind_below_Some:
  "rfind_below path sep k = Some i \<Longrightarrow>
     i < k \<and> path ! i = sep \<and> (\<forall>j. i < j \<and> j < k \<longrightarrow> path ! j \<noteq> sep)"
  by (induction k) (auto split: if_splits simp: less_Suc_eq)

lemma rfind_below_None: "rfind_below path sep k = None \<Longrightarrow> \<forall>j<k. path ! j \<noteq> sep"
  by (induction k) (auto split: if_splits simp: less_Suc_eq)

lemma separate_filepath_found:
  assumes "rfind path CHR ''/'' = Some i"
  shows "separate_filepath path = (take (Suc i) path, drop (Suc i) path)"
    and "i < length path" and "path ! i = CHR ''/''"
    and "CHR ''/'' \<notin> set (drop (Suc i) path)"
proof -
  from assms have f: "i < length path" "path ! i = CHR ''/''"
    "\<forall>j. i < j \<and> j < length path \<longrightarrow> path ! j \<noteq> CHR ''/''"
    using rfind_below_Some [of path "CHR ''/''" "length path" i] by (simp_all add: rfind_def)
  show "i < length path" "path ! i = CHR ''/''" using f by simp_all
  show "separate_filepath path = (take (Suc i) path, drop (Suc i) path)"
    using assms f(1) by (simp add: separate_filepath_def substr_def)
  show "CHR ''/'' \<notin> set (drop (Suc i) path)"
  proof
    assume "CHR ''/'' \<in> set (drop (Suc i) path)"
    then obtain k where k: "k < length (drop (Suc i) path)" "drop (Suc i) path ! k = CHR ''/''"
      by (auto simp: in_set_conv_nth)
    then have "path ! (Suc i + k) = CHR ''/''" "Suc i + k < length path"
      using f(1) by auto
    with f(3) show False by auto
  qed
qed

lemma separate_filepath_not_found:
  assumes "rfind path CHR ''/'' = None"
  shows "separate_filepath path = ([], path)" and "CHR ''/'' \<notin> set path"
proof -
  show "separate_filepath path = ([], path)"
    using assms by (simp add: separate_filepath_def)
  show "CHR ''/'' \<notin> set path"
    using rfind_below_None [of path "CHR ''/''" "length path"] assms
    by (auto simp: rfind_def in_set_conv_nth)
qed

lemma separate_filepath_split:
  "fst (separate_filepath path) @ snd (separate_filepath path) = path
   \<and> CHR ''/'' \<notin> set (snd (separate_filepath path))
   \<and> (fst (separate_filepath path) = [] \<or> last (fst (separate_filepath path)) = CHR ''/'')"
proof (cases "rfind path CHR ''/''")
  case None
  then show ?thesis
    using separate_filepath_not_found [of path] by simp
next
  case (Some i)
  note found = separate_filepath_found [OF Some]
  have "last (take (Suc i) path) = CHR ''/''"
    using found(2,3) by (simp add: take_Suc_conv_app_nth)
  moreover have "take (Suc i) path \<noteq> []"
    using found(2) by auto
  ultimately show ?thesis
    using found(1,4) by simp
qed

lemma members_new_file: "members (new_file path opts) = Parseable_file path"
  by (simp add: new_file_def post_construct_def set_cur_dir_def Let_def split: prod.splits)

lemma cur_dir_new_file: "cur_dir (new_file path opts) = fst (separate_filepath path)"
  by (simp add: new_file_def post_construct_def set_cur_dir_def Let_def split: prod.splits)

lemma parse_value_unfold:
  "parse_value env p base_options st =
     parse_value_origin env p
       (case get_origin_description base_options of
          Some d \<Rightarrow> Simple_config_origin d
        | None \<Rightarrow> initial_origin p)
       (fixup_options (members p) base_options) st"
  by (simp add: parse_value_def Let_def fixup_origin_description)

lemma parse_document_unfold:
  "parse_document env p base_options =
     parse_document_origin env p
       (case get_origin_description base_options of
          Some d \<Rightarrow> Simple_config_origin d
        | None \<Rightarrow> initial_origin p)
       (fixup_options (members p) base_options)"
  by (simp add: parse_document_def Let_def fixup_origin_description)

lemma missing_file_raw:
  "raw_parse_value example_env (new_file ''/etc/missing.conf'' example_options) og opts st
     = (Inl (Runtime_error ''not found''), st)"
  by (simp add: raw_parse_value_def members_new_file example_env_def)

lemma initial_origin_new_file:
  "get_origin_description opts = None \<Longrightarrow>
     initial_origin (new_file path opts) = Simple_config_origin (''file: '' @ path)"
  by (simp add: new_file_def post_construct_def set_cur_dir_def Let_def fixup_origin_description
      split: prod.splits)

lemma missing_file_raw_document:
  "raw_parse_document example_env (new_file ''/etc/missing.conf'' example_options) og opts
     = Inl (Runtime_error ''not found'')"
  by (simp add: raw_parse_document_def members_new_file example_env_def)

lemma stacktrace_concat:
  "stacktrace env pstack = concat (map (\<lambda>q. [CHR 0x09] @ to_string env q @ [CHR 0x0A]) pstack)"
proof -
  have "foldl (\<lambda>s p. s @ [CHR 0x09] @ to_string env p @ [CHR 0x0A]) acc pstack =
          acc @ concat (map (\<lambda>q. [CHR 0x09] @ to_string env q @ [CHR 0x0A]) pstack)" for acc
    by (induction pstack arbitrary: acc) simp_all
  then show ?thesis by (simp add: stacktrace_def)
qed

lemma std_to_string_50: "std_to_string MAX_INCLUDE_DEPTH = ''50''"
  by (simp add: MAX_INCLUDE_DEPTH_def std_to_string.simps)

lemma parse_at_cap:
  "MAX_INCLUDE_DEPTH \<le> length pstack \<Longrightarrow>
     parse env p options (Some pstack) =
       (Inl (Parse_exception (initial_origin p)
               (''include statements nested more than 50 times, you probably have a cycle in your includes. Trace:''
                  @ [CHR 0x0A] @ stacktrace env pstack)),
        Some pstack)"
  by (simp add: parse_def std_to_string_50)

lemma raw_parse_value_keeps_stack:
  assumes "\<forall>node og opts q x v. snd (config_parser_parse env node og opts q (Some (x # v))) = Some (x # v)"
  shows "snd (raw_parse_value env p og options (Some (x # v))) = Some (x # v)"
  using assms
  by (simp add: raw_parse_value_def raw_parse_value_stream_def Let_def split: sum.splits)

lemma parse_value_origin_keeps_stack:
  assumes "\<forall>node og opts q x v. snd (config_parser_parse env node og opts q (Some (x # v))) = Some (x # v)"
  shows "snd (parse_value_origin env p og options (Some (x # v))) = Some (x # v)"
  using raw_parse_value_keeps_stack [OF assms, of p og options x v]
  by (auto simp add: parse_value_origin_def split: prod.splits sum.splits)

lemma parse_value_keeps_stack:
  assumes "\<forall>node og opts q x v. snd (config_parser_parse env node og opts q (Some (x # v))) = Some (x # v)"
  shows "snd (parse_value env p options (Some (x # v))) = Some (x # v)"
  using parse_value_origin_keeps_stack [OF assms]
  by (simp add: parse_value_def Let_def)

lemma parse_below_cap:
  assumes "\<forall>node og opts q x v. snd (config_parser_parse env node og opts q (Some (x # v))) = Some (x # v)"
    and "length pstack < MAX_INCLUDE_DEPTH"
    and "st = None \<and> pstack = [] \<or> st = Some pstack"
  shows "\<exists>r. parse_value env p options (Some (pstack @ [p])) = (r, Some (pstack @ [p]))
           \<and> parse env p options st =
               (case r of Inl e \<Rightarrow> Inl e | Inr v \<Rightarrow> force_parsed_to_object v,
                if pstack = [] then None else Some pstack)"
proof -
  obtain x v where xv: "pstack @ [p] = x # v"
    by (cases pstack) auto
  obtain r s where rs: "parse_value env p options (Some (pstack @ [p])) = (r, s)"
    by (cases "parse_value env p options (Some (pstack @ [p]))")
  have s: "s = Some (pstack @ [p])"
    using parse_value_keeps_stack [OF assms(1), of p options x v] rs xv by simp
  have "parse env p options st =
          (case r of Inl e \<Rightarrow> Inl e | Inr v \<Rightarrow> force_parsed_to_object v,
           if pstack = [] then None else Some pstack)"
    using assms(2,3) rs s by (auto simp add: parse_def split: sum.splits)
  with rs s show ?thesis by simp
qed

lemma example_env_nested:
  "\<forall>node og opts q x v.
      snd (config_parser_parse example_env node og opts q (Some (x # v))) = Some (x # v)"
  by (simp add: example_env_def)

lemma separate_app_conf: "separate_filepath ''/etc/app.conf'' = (''/etc/'', ''app.conf'')"
  by (simp add: separate_filepath_def rfind_def substr_def Let_def)

lemma relative_db_conf:
  "relative_to example_env (new_file ''/etc/app.conf'' example_options) ''db.conf''
     = new_file ''/etc/db.conf''
         (context_parse_options example_env (new_file ''/etc/app.conf'' example_options))"
  by (simp add: relative_to_def cur_dir_new_file get_cur_dir_def separate_app_conf)

lemma context_options_description:
  "get_origin_description
     (context_parse_options example_env (new_file ''/etc/app.conf'' example_options)) = None"
  by (simp add: example_env_def set_includer_def new_file_def post_construct_def Let_def
      set_cur_dir_def fixup_origin_description example_options_def split: prod.splits)

lemma missing_db_raw:
  "raw_parse_value example_env (new_file ''/etc/db.conf'' copts) og opts st
     = (Inl (Runtime_error ''not found''), st)"
  by (simp add: raw_parse_value_def members_new_file example_env_def)

lemma missing_db_parse_value:
  assumes "get_origin_description copts = None" and "get_origin_description opts = None"
  shows "parse_value example_env (new_file ''/etc/db.conf'' copts) opts st =
           (if get_allow_missing opts
            then Inr (Simple_config_object
                        (Simple_config_origin ''file: /etc/db.conf (not found)'') [])
            else Inl (Io_exception (Simple_config_origin ''file: /etc/db.conf'') ''not found''),
            st)"
  using assms
  by (simp add: parse_value_unfold parse_value_origin_def missing_db_raw
      initial_origin_new_file fixup_allow_missing)

lemma missing_db_parse:
  assumes "get_origin_description copts = None" and "get_origin_description opts = None"
  shows "parse example_env (new_file ''/etc/db.conf'' copts) opts (Some [q]) =
           (if get_allow_missing opts
            then Inr (Simple_config_object
                        (Simple_config_origin ''file: /etc/db.conf (not found)'') [])
            else Inl (Io_exception (Simple_config_origin ''file: /etc/db.conf'') ''not found''),
            Some [q])"
  using assms
  by (simp add: parse_def MAX_INCLUDE_DEPTH_def missing_db_parse_value)

lemma including_env_fields:
  "open_file including_env = open_file example_env"
  "document_parser_parse including_env = document_parser_parse example_env"
  "hocon_what including_env = hocon_what example_env"
  "config_parser_parse including_env node og opts p st =
     parse example_env (relative_to example_env p ''db.conf'') opts st"
  by (simp_all add: including_env_def)

lemma example_env_app_conf:
  "open_file example_env ''/etc/app.conf'' = Some ''a = 1''"
  "document_parser_parse example_env (Token_iterator og ''a = 1'' syn) og opts
     = Inr (Config_node_root [Other_node ''a = 1''] og)"
  "hocon_what example_env (Io_exception og' m) = description og' @ '': '' @ m"
  by (simp_all add: example_env_def)

lemma including_raw:
  assumes "get_origin_description opts = None"
  shows "raw_parse_value including_env (new_file ''/etc/app.conf'' example_options) og opts
           (Some [q]) =
           (if get_allow_missing opts
            then Inr (Simple_config_object
                        (Simple_config_origin ''file: /etc/db.conf (not found)'') [])
            else Inl (Io_exception (Simple_config_origin ''file: /etc/db.conf'') ''not found''),
            Some [q])"
proof -
  have "raw_parse_value including_env (new_file ''/etc/app.conf'' example_options) og opts (Some [q])
          = parse example_env
              (relative_to example_env (new_file ''/etc/app.conf'' example_options) ''db.conf'')
              opts (Some [q])"
    by (simp add: raw_parse_value_def raw_parse_value_stream_def members_new_file
        content_type_def including_env_fields example_env_app_conf)
  then show ?thesis
    using assms by (simp add: relative_db_conf missing_db_parse context_options_description)
qed

lemma including_run:
  assumes "get_origin_description opts = None"
  shows "fst (parse including_env (new_file ''/etc/app.conf'' example_options) opts None) =
     (if get_allow_missing opts
      then Inr (Simple_config_object (Simple_config_origin ''file: /etc/db.conf (not found)'') [])
      else Inl (Io_exception (Simple_config_origin ''file: /etc/app.conf'')
                  ''file: /etc/db.conf: not found''))"
proof -
  have og: "initial_origin (new_file ''/etc/app.conf'' example_options)
              = Simple_config_origin ''file: /etc/app.conf''"
    by (simp add: initial_origin_new_file example_options_def)
  show ?thesis
    using assms
    by (simp add: parse_def MAX_INCLUDE_DEPTH_def parse_value_unfold parse_value_origin_def
        including_raw fixup_origin_description fixup_allow_missing og
        including_env_fields example_env_app_conf)
qed

lemma including_env_nested:
  "\<forall>node og opts q x v.
      snd (config_parser_parse including_env node og opts q (Some (x # v))) = Some (x # v)"
proof (intro allI)
  fix node :: config_node and og opts q x v
  let ?r = "relative_to example_env q ''db.conf''"
  have "snd (parse example_env ?r opts (Some (x # v))) = Some (x # v)"
  proof (cases "length (x # v) < MAX_INCLUDE_DEPTH")
    case True
    then show ?thesis
      using parse_below_cap [OF example_env_nested, of "x # v" "Some (x # v)" ?r opts]
      by auto
  next
    case False
    then show ?thesis
      using parse_at_cap [of "x # v" example_env ?r opts] by simp
  qed
  then show "snd (config_parser_parse including_env node og opts q (Some (x # v))) = Some (x # v)"
    by (simp add: including_env_def)
qed

lemma force_parsed_to_object_cases:
  "force_parsed_to_object v =
     (if is_config_object v then Inr v
      else Inl (Wrong_type_exception (origin v) [] ''object at file root'' (value_type_name v)))"
  by (cases v) simp_all

lemma example_env_list_json:
  "open_file example_env ''/etc/list.json'' = Some ''[1]''"
  "document_parser_parse example_env (Token_iterator og ''[1]'' syn) og opts
     = Inr (Config_node_root [Other_node ''[1]''] og)"
  "config_parser_parse example_env (Config_node_root [Other_node ''[1]''] og) og opts p st
     = (Inr (Non_object_value og ''list''), st)"
  "config_parser_parse example_env (Config_node_root [Other_node ''a = 1''] og) og opts p st
     = (Inr (Simple_config_object og []), st)"
  by (simp_all add: example_env_def)

lemma list_json_parse_value:
  assumes "get_origin_description opts = None"
  shows "parse_value example_env (new_file ''/etc/list.json'' example_options) opts st
           = (Inr (Non_object_value (Simple_config_origin ''file: /etc/list.json'') ''list''), st)"
proof -
  have og: "initial_origin (new_file ''/etc/list.json'' example_options)
              = Simple_config_origin ''file: /etc/list.json''"
    by (simp add: initial_origin_new_file example_options_def)
  show ?thesis
    using assms
    by (simp add: parse_value_unfold parse_value_origin_def raw_parse_value_def
        raw_parse_value_stream_def members_new_file content_type_def og example_env_list_json)
qed

lemma app_conf_parse_value:
  assumes "get_origin_description opts = None"
  shows "parse_value example_env (new_file ''/etc/app.conf'' example_options) opts st
           = (Inr (Simple_config_object (Simple_config_origin ''file: /etc/app.conf'') []), st)"
proof -
  have og: "initial_origin (new_file ''/etc/app.conf'' example_options)
              = Simple_config_origin ''file: /etc/app.conf''"
    by (simp add: initial_origin_new_file example_options_def)
  show ?thesis
    using assms
    by (simp add: parse_value_unfold parse_value_origin_def raw_parse_value_def
        raw_parse_value_stream_def members_new_file content_type_def og example_env_list_json
        example_env_app_conf)
qed

lemma reaches_self: "reaches d d"
  by (cases d) simp_all

lemma reaches_installed:
  "d \<noteq> Null_includer \<Longrightarrow> reaches d (Full_includer (With_fallback d Default_includer))"
  by (simp only: reaches.simps reaches_self simp_thms)

lemma reaches_default:
  "reaches Default_includer (Full_includer (With_fallback d Default_includer))"
  "reaches Default_includer (Full_includer Default_includer)"
  by (simp_all only: reaches.simps simp_thms)

lemma parse_below_cap_unfold:
  assumes "depth st < MAX_INCLUDE_DEPTH"
  shows "parse env p options st =
           (case parse_value env p options (Some ((case st of None \<Rightarrow> [] | Some v \<Rightarrow> v) @ [p])) of
              (Inl e, st') \<Rightarrow> (Inl e, scope_exit st')
            | (Inr v, st') \<Rightarrow> (force_parsed_to_object v, scope_exit st'))"
  using assms by (cases st) (simp_all add: parse_def depth_def)

lemma new_file_origin_invariant:
  "initial_origin (new_file path opts) =
     (case get_origin_description (initial_options (new_file path opts)) of
        Some d \<Rightarrow> Simple_config_origin d
      | None \<Rightarrow> create_origin (members (new_file path opts)))"
  by (simp add: new_file_def post_construct_def set_cur_dir_def Let_def
      split: prod.splits option.splits)

lemma post_construct_origin_invariant:
  "initial_origin (post_construct s opts) =
     (case get_origin_description (initial_options (post_construct s opts)) of
        Some d \<Rightarrow> Simple_config_origin d
      | None \<Rightarrow> create_origin (members (post_construct s opts)))"
  by (simp add: post_construct_def Let_def split: option.splits)

lemma initial_options_new_file:
  "initial_options (new_file path opts) = fixup_options (Parseable_file path) opts"
  by (simp add: new_file_def post_construct_def set_cur_dir_def Let_def split: prod.splits)

lemma own_origin_chosen:
  assumes "initial_origin p =
     (case get_origin_description (initial_options p) of
        Some d \<Rightarrow> Simple_config_origin d
      | None \<Rightarrow> create_origin (members p))"
  shows "(case get_origin_description (initial_options p) of
            Some d \<Rightarrow> Simple_config_origin d
          | None \<Rightarrow> initial_origin p) = initial_origin p"
  using assms by (simp split: option.splits)

lemma labelled_parse_value:
  "parse_value example_env (new_file ''/etc/missing.conf'' example_options) labelled_options st
     = (Inr (Simple_config_object
               (Simple_config_origin ''settings of the application (not found)'') []), st)"
proof -
  have d: "get_origin_description labelled_options = Some ''settings of the application''"
    "get_allow_missing labelled_options"
    by (simp_all add: labelled_options_def example_options_def)
  show ?thesis
    by (simp add: parse_value_unfold parse_value_origin_def missing_file_raw d
        fixup_allow_missing)
qed

lemma labelled_parse_document:
  "parse_document example_env (new_file ''/etc/missing.conf'' example_options) labelled_options
     = Inr (Simple_config_document
              (Config_node_root [Config_node_object []]
                 (Simple_config_origin ''settings of the application''))
              (fixup_options (Parseable_file ''/etc/missing.conf'') labelled_options))"
proof -
  have d: "get_origin_description labelled_options = Some ''settings of the application''"
    "get_allow_missing labelled_options"
    by (simp_all add: labelled_options_def example_options_def)
  show ?thesis
    by (simp add: parse_document_unfold parse_document_origin_def missing_file_raw_document d
        fixup_allow_missing members_new_file)
qed

lemma missing_conf_origin:
  "initial_origin (new_file ''/etc/missing.conf'' example_options)
     = Simple_config_origin ''file: /etc/missing.conf''"
  by (simp add: initial_origin_new_file example_options_def)

subsection \<open>Render options\<close>


text \<open>
  C10. Default-constructed render options have all four toggles (origin comments,
  comments, formatted, json) on; so the default rendering contains comments, and for
  that reason is not valid JSON although \<open>json\<close> is on.
\<close>

theorem default_render_options_all_on:
  "origin_comments default_config_render_options \<and> comments default_config_render_options
   \<and> formatted default_config_render_options \<and> json default_config_render_options
   \<and> rendering_contains_comments default_config_render_options
   \<and> \<not> rendering_valid_json default_config_render_options"
  by (simp add: default_config_render_options_def make_config_render_options_def
      rendering_contains_comments_def rendering_valid_json_def)

subsection \<open>Syntax of a source\<close>

text \<open>
  C4. A file source guesses JSON when its name ends with \<open>.json\<close>, CONF when it ends with
  \<open>.conf\<close>, and nothing otherwise. \<open>fixup_options\<close> keeps a syntax given by the caller,
  else takes the guess, else CONF; the syntax it returns is never unspecified.
\<close>

theorem guessed_and_fixed_syntax:
  "guess_syntax (Parseable_file name) =
     (if suffix ''.json'' name then JSON else if suffix ''.conf'' name then CONF else UNSPECIFIED)
   \<and> get_syntax (fixup_options s base_options) =
     (if get_syntax base_options \<noteq> UNSPECIFIED then get_syntax base_options
      else if guess_syntax s \<noteq> UNSPECIFIED then guess_syntax s
      else CONF)
   \<and> get_syntax (fixup_options s base_options) \<noteq> UNSPECIFIED"
  by (simp add: syntax_from_extension_def ends_with_suffix fixup_syntax)

theorem guessed_and_fixed_syntax_witness:
  "guess_syntax (Parseable_file ''app.json'') = JSON
   \<and> guess_syntax (Parseable_file ''app.conf'') = CONF
   \<and> guess_syntax (Parseable_file ''app.properties'') = UNSPECIFIED
   \<and> get_syntax (fixup_options (Parseable_file ''app.properties'') example_options) = CONF
   \<and> get_syntax (fixup_options (Parseable_file ''app.json'') example_options) = JSON"
proof -
  have ends: "suffix ''.json'' ''app.json''" "\<not> suffix ''.json'' ''app.conf''"
    "suffix ''.conf'' ''app.conf''" "\<not> suffix ''.json'' ''app.properties''"
    "\<not> suffix ''.conf'' ''app.properties''"
    by (simp_all add: suffix_def Cons_eq_append_conv append_eq_Cons_conv)
  show ?thesis
    using guessed_and_fixed_syntax [of "''app.json''" "Parseable_file ''app.properties''" example_options]
      guessed_and_fixed_syntax [of "''app.conf''" "Parseable_file ''app.json''" example_options]
      guessed_and_fixed_syntax [of "''app.properties''" "Parseable_file ''app.json''" example_options]
      ends
    by (simp add: example_options_def)
qed

subsection \<open>Relative sources\<close>

text \<open>
  C5. For a non-empty include path, \<open>relative_to\<close> gives a file source whose path is the
  string itself when it starts with \<open>/\<close>, and otherwise the string with the including
  source's current directory put in front. The current directory of a file source is the
  first part of \<open>separate_filepath\<close>, which splits at the last \<open>/\<close> whatever the
  platform: the two parts make up the path, the name holds no \<open>/\<close>, and the directory is
  empty or ends with \<open>/\<close>.
\<close>

theorem relative_to_resolution:
  assumes "file_name \<noteq> []"
  shows "members (relative_to env p file_name) =
           Parseable_file (if hd file_name = CHR ''/'' then file_name else cur_dir p @ file_name)
         \<and> cur_dir (new_file path opts) = fst (separate_filepath path)
         \<and> fst (separate_filepath path) @ snd (separate_filepath path) = path
         \<and> CHR ''/'' \<notin> set (snd (separate_filepath path))
         \<and> (fst (separate_filepath path) = [] \<or> last (fst (separate_filepath path)) = CHR ''/'')"
  using assms separate_filepath_split [of path]
  by (auto simp add: relative_to_def members_new_file cur_dir_new_file get_cur_dir_def Let_def)

theorem relative_to_resolution_witness:
  "''db.conf'' \<noteq> []
   \<and> members (relative_to example_env (new_file ''/etc/app.conf'' example_options) ''db.conf'')
       = Parseable_file ''/etc/db.conf''
   \<and> members (relative_to example_env (new_file ''/etc/app.conf'' example_options) ''/opt/db.conf'')
       = Parseable_file ''/opt/db.conf''
   \<and> cur_dir (new_file ''/etc/app.conf'' example_options) = ''/etc/''
   \<and> separate_filepath ''/etc/app.conf'' = (''/etc/'', ''app.conf'')"
proof -
  have s: "separate_filepath ''/etc/app.conf'' = (''/etc/'', ''app.conf'')"
    by (simp add: separate_filepath_def rfind_def substr_def Let_def)
  have "''db.conf'' \<noteq> []" "''/opt/db.conf'' \<noteq> []" by simp_all
  then show ?thesis
    using relative_to_resolution [of "''db.conf''" example_env "new_file ''/etc/app.conf'' example_options" "''/etc/app.conf''" example_options]
      relative_to_resolution [of "''/opt/db.conf''" example_env "new_file ''/etc/app.conf'' example_options" "''/etc/app.conf''" example_options]
      s
    by simp
qed

subsection \<open>Failure of reading or parsing\<close>

text \<open>
  C1. When reading or parsing the stream of a source fails, \<open>parse_value\<close> with
  allow-missing set in the effective options returns an empty object whose origin
  description is the description of the origin the call works under, followed by
  \<open> (not found)\<close>; with allow-missing not set it raises an io error holding that origin
  and the message of the failure (\<open>what()\<close>, which for a \<open>std::runtime_error\<close> is the message
  it was built with: \<open>not found\<close> for a file that cannot be opened). The origin the call
  works under is the origin description carried by the options handed in when they carry
  one (line 219), and the source's own origin otherwise; for \<open>parse_value()\<close> on a source
  whose origin was set by \<open>post_construct\<close> it is always the source's own. The effective
  options are those returned by \<open>fixup_options\<close>, which leaves allow-missing as the caller
  set it.
\<close>

theorem parse_value_failure:
  "(raw_parse_value env p og final_options st = (Inl e, st') \<longrightarrow>
      parse_value_origin env p og final_options st =
        (if get_allow_missing final_options
         then Inr (Simple_config_object
                     (Simple_config_origin (description og @ '' (not found)'')) [])
         else Inl (Io_exception og (what env e)), st'))
   \<and> (get_origin_description base_options = None \<longrightarrow>
        parse_value env p base_options st =
          parse_value_origin env p (initial_origin p)
            (fixup_options (members p) base_options) st)
   \<and> (get_origin_description base_options = Some d \<longrightarrow>
        parse_value env p base_options st =
          parse_value_origin env p (Simple_config_origin d)
            (fixup_options (members p) base_options) st)
   \<and> (initial_origin p =
          (case get_origin_description (initial_options p) of
             Some d \<Rightarrow> Simple_config_origin d
           | None \<Rightarrow> create_origin (members p)) \<longrightarrow>
        parse_value_initial env p st =
          parse_value_origin env p (initial_origin p)
            (fixup_options (members p) (initial_options p)) st)
   \<and> get_allow_missing (fixup_options (members p) base_options) = get_allow_missing base_options
   \<and> what env (Runtime_error m) = m
   \<and> (members p = Parseable_file i \<and> open_file env i = None \<longrightarrow>
        raw_parse_value env p og final_options st = (Inl (Runtime_error ''not found''), st))"
  by (simp add: parse_value_unfold fixup_allow_missing parse_value_origin_def
      parse_value_initial_def own_origin_chosen raw_parse_value_def)

theorem parse_value_failure_witness:
  "raw_parse_value example_env (new_file ''/etc/missing.conf'' example_options)
       (Simple_config_origin ''file: /etc/missing.conf'')
       (fixup_options (Parseable_file ''/etc/missing.conf'') example_options) None
     = (Inl (Runtime_error ''not found''), None)
   \<and> parse_value example_env (new_file ''/etc/missing.conf'' example_options) example_options None
     = (Inr (Simple_config_object (Simple_config_origin ''file: /etc/missing.conf (not found)'') []),
        None)
   \<and> parse_value example_env (new_file ''/etc/missing.conf'' example_options) strict_options None
     = (Inl (Io_exception (Simple_config_origin ''file: /etc/missing.conf'') ''not found''), None)
   \<and> parse_value example_env (new_file ''/etc/missing.conf'' example_options) labelled_options None
     = (Inr (Simple_config_object
               (Simple_config_origin ''settings of the application (not found)'') []), None)
   \<and> parse_value_initial example_env (new_file ''/etc/missing.conf'' example_options) None
     = (Inr (Simple_config_object (Simple_config_origin ''file: /etc/missing.conf (not found)'') []),
        None)"
proof -
  let ?p = "new_file ''/etc/missing.conf'' example_options"
  let ?og = "Simple_config_origin ''file: /etc/missing.conf''"
  have og: "initial_origin ?p = ?og"
    by (simp add: initial_origin_new_file example_options_def)
  have d: "get_origin_description example_options = None" "get_origin_description strict_options = None"
    "get_allow_missing example_options" "\<not> get_allow_missing strict_options"
    "get_origin_description labelled_options = Some ''settings of the application''"
    "get_allow_missing labelled_options"
    by (simp_all add: example_options_def strict_options_def labelled_options_def)
  have io: "get_allow_missing (initial_options ?p)"
    by (simp add: initial_options_new_file fixup_allow_missing example_options_def)
  have unopened: "members ?p = Parseable_file ''/etc/missing.conf''"
    "open_file example_env ''/etc/missing.conf'' = None"
    by (simp_all add: members_new_file example_env_def)
  have raw: "raw_parse_value example_env ?p og opts None = (Inl (Runtime_error ''not found''), None)"
    for og opts
    using parse_value_failure [where env = example_env and p = ?p and og = og
        and final_options = opts and st = None and e = "Runtime_error ''not found''"
        and st' = None and base_options = example_options and d = "[]"
        and m = "''not found''" and i = "''/etc/missing.conf''"]
      unopened
    by blast
  have msg: "what example_env (Runtime_error ''not found'') = ''not found''"
    using parse_value_failure [where env = example_env and p = ?p and og = ?og
        and final_options = example_options and st = None and e = "Runtime_error ''not found''"
        and st' = None and base_options = example_options and d = "[]"
        and m = "''not found''" and i = "''/etc/missing.conf''"]
    by blast
  have own: "parse_value_initial example_env ?p None =
               parse_value_origin example_env ?p (initial_origin ?p)
                 (fixup_options (members ?p) (initial_options ?p)) None"
    using parse_value_failure [of example_env ?p ?og "fixup_options (members ?p) (initial_options ?p)"
        None "Runtime_error ''not found''" None example_options]
      new_file_origin_invariant [of "''/etc/missing.conf''" example_options]
    by blast
  show ?thesis
    using parse_value_failure [of example_env ?p ?og "fixup_options (members ?p) (initial_options ?p)"
        None "Runtime_error ''not found''" None example_options, THEN conjunct1]
      own io
      parse_value_failure [of example_env ?p ?og "fixup_options (members ?p) example_options"
        None "Runtime_error ''not found''" None example_options]
      parse_value_failure [of example_env ?p ?og "fixup_options (members ?p) strict_options"
        None "Runtime_error ''not found''" None strict_options]
      parse_value_failure [of example_env ?p "Simple_config_origin ''settings of the application''"
        "fixup_options (members ?p) labelled_options"
        None "Runtime_error ''not found''" None labelled_options "''settings of the application''"]
      raw msg og d
    by (simp add: members_new_file fixup_allow_missing del: what.simps)
qed


text \<open>
  The origin is not the source's own on every call: the source of the missing file
  \<open>/etc/missing.conf\<close>, whose origin reads \<open>file: /etc/missing.conf\<close>, parsed with options
  that carry the origin description \<open>settings of the application\<close> and allow a missing
  file, gives an empty object whose origin reads \<open>settings of the application (not found)\<close>,
  through \<open>parse_value(base_options)\<close> and through \<open>parse(options)\<close> alike.
\<close>

theorem parse_value_failure_counterexample:
  "raw_parse_value example_env (new_file ''/etc/missing.conf'' example_options)
       (Simple_config_origin ''settings of the application'')
       (fixup_options (Parseable_file ''/etc/missing.conf'') labelled_options) None
     = (Inl (Runtime_error ''not found''), None)
   \<and> get_allow_missing (fixup_options (Parseable_file ''/etc/missing.conf'') labelled_options)
   \<and> description (initial_origin (new_file ''/etc/missing.conf'' example_options))
       = ''file: /etc/missing.conf''
   \<and> parse_value example_env (new_file ''/etc/missing.conf'' example_options) labelled_options None
       = (Inr (Simple_config_object
                 (Simple_config_origin ''settings of the application (not found)'') []), None)
   \<and> parse_value example_env (new_file ''/etc/missing.conf'' example_options) labelled_options None
       \<noteq> (Inr (Simple_config_object
                 (Simple_config_origin
                    (description (initial_origin (new_file ''/etc/missing.conf'' example_options))
                       @ '' (not found)'')) []), None)
   \<and> parse example_env (new_file ''/etc/missing.conf'' example_options) labelled_options None
       = (Inr (Simple_config_object
                 (Simple_config_origin ''settings of the application (not found)'') []), None)"
proof -
  have a: "get_allow_missing (fixup_options (Parseable_file ''/etc/missing.conf'') labelled_options)"
    by (simp add: fixup_allow_missing labelled_options_def example_options_def)
  have room: "depth None < MAX_INCLUDE_DEPTH"
    by (simp add: depth_def MAX_INCLUDE_DEPTH_def)
  have p: "parse example_env (new_file ''/etc/missing.conf'' example_options) labelled_options None
       = (Inr (Simple_config_object
                 (Simple_config_origin ''settings of the application (not found)'') []), None)"
    by (simp add: parse_below_cap_unfold [OF room] labelled_parse_value)
  show ?thesis
    using a p by (simp add: missing_file_raw labelled_parse_value missing_conf_origin)
qed

text \<open>
  C9. When reading or parsing fails, \<open>parse_document\<close> with allow-missing set returns a
  document whose root has one child, an object node with no children, and whose origin
  is the origin the call works under, with nothing appended; with allow-missing not set
  it raises a plain \<open>config_exception\<close>, not an \<open>io_exception\<close>, whose message is
  \<open>exception loading \<close>, the description of that origin, a colon and the message of the
  failure. The origin the call works under is chosen as in \<open>parse_value\<close>: the origin
  description carried by the options handed in when they carry one (line 270), and the
  source's own origin otherwise; for \<open>parse_config_document()\<close> on a source whose origin
  was set by \<open>post_construct\<close> it is always the source's own.
\<close>

theorem parse_document_failure:
  "(raw_parse_document env p og final_options = Inl e \<longrightarrow>
      parse_document_origin env p og final_options =
        (if get_allow_missing final_options
         then Inr (Simple_config_document
                     (Config_node_root [Config_node_object []] og) final_options)
         else Inl (Config_exception
                     (''exception loading '' @ description og @ '': '' @ what env e))))
   \<and> (get_origin_description base_options = None \<longrightarrow>
        parse_document env p base_options =
          parse_document_origin env p (initial_origin p)
            (fixup_options (members p) base_options))
   \<and> (get_origin_description base_options = Some d \<longrightarrow>
        parse_document env p base_options =
          parse_document_origin env p (Simple_config_origin d)
            (fixup_options (members p) base_options))
   \<and> (initial_origin p =
          (case get_origin_description (initial_options p) of
             Some d \<Rightarrow> Simple_config_origin d
           | None \<Rightarrow> create_origin (members p)) \<longrightarrow>
        parse_config_document env p =
          parse_document_origin env p (initial_origin p)
            (fixup_options (members p) (initial_options p)))
   \<and> get_allow_missing (fixup_options (members p) base_options) = get_allow_missing base_options
   \<and> what env (Runtime_error m) = m
   \<and> (members p = Parseable_file i \<and> open_file env i = None \<longrightarrow>
        raw_parse_document env p og final_options = Inl (Runtime_error ''not found''))"
  by (simp add: parse_document_unfold fixup_allow_missing parse_document_origin_def
      parse_config_document_def own_origin_chosen raw_parse_document_def)

theorem parse_document_failure_witness:
  "raw_parse_document example_env (new_file ''/etc/missing.conf'' example_options)
       (Simple_config_origin ''file: /etc/missing.conf'')
       (fixup_options (Parseable_file ''/etc/missing.conf'') example_options)
     = Inl (Runtime_error ''not found'')
   \<and> parse_document example_env (new_file ''/etc/missing.conf'' example_options) example_options
     = Inr (Simple_config_document
              (Config_node_root [Config_node_object []]
                 (Simple_config_origin ''file: /etc/missing.conf''))
              (fixup_options (Parseable_file ''/etc/missing.conf'') example_options))
   \<and> parse_document example_env (new_file ''/etc/missing.conf'' example_options) strict_options
     = Inl (Config_exception ''exception loading file: /etc/missing.conf: not found'')
   \<and> parse_document example_env (new_file ''/etc/missing.conf'' example_options) labelled_options
     = Inr (Simple_config_document
              (Config_node_root [Config_node_object []]
                 (Simple_config_origin ''settings of the application''))
              (fixup_options (Parseable_file ''/etc/missing.conf'') labelled_options))
   \<and> parse_config_document example_env (new_file ''/etc/missing.conf'' example_options)
     = Inr (Simple_config_document
              (Config_node_root [Config_node_object []]
                 (Simple_config_origin ''file: /etc/missing.conf''))
              (fixup_options (Parseable_file ''/etc/missing.conf'')
                 (fixup_options (Parseable_file ''/etc/missing.conf'') example_options)))"
proof -
  let ?p = "new_file ''/etc/missing.conf'' example_options"
  let ?og = "Simple_config_origin ''file: /etc/missing.conf''"
  have og: "initial_origin ?p = ?og"
    by (simp add: initial_origin_new_file example_options_def)
  have d: "get_origin_description example_options = None" "get_origin_description strict_options = None"
    "get_allow_missing example_options" "\<not> get_allow_missing strict_options"
    "get_origin_description labelled_options = Some ''settings of the application''"
    "get_allow_missing labelled_options"
    by (simp_all add: example_options_def strict_options_def labelled_options_def)
  have io: "get_allow_missing (initial_options ?p)"
    "initial_options ?p = fixup_options (Parseable_file ''/etc/missing.conf'') example_options"
    by (simp_all add: initial_options_new_file fixup_allow_missing example_options_def)
  have unopened: "members ?p = Parseable_file ''/etc/missing.conf''"
    "open_file example_env ''/etc/missing.conf'' = None"
    by (simp_all add: members_new_file example_env_def)
  have raw: "raw_parse_document example_env ?p og opts = Inl (Runtime_error ''not found'')"
    for og opts
    using parse_document_failure [where env = example_env and p = ?p and og = og
        and final_options = opts and e = "Runtime_error ''not found''"
        and base_options = example_options and d = "[]"
        and m = "''not found''" and i = "''/etc/missing.conf''"]
      unopened
    by blast
  have msg: "what example_env (Runtime_error ''not found'') = ''not found''"
    using parse_document_failure [where env = example_env and p = ?p and og = ?og
        and final_options = example_options and e = "Runtime_error ''not found''"
        and base_options = example_options and d = "[]"
        and m = "''not found''" and i = "''/etc/missing.conf''"]
    by blast
  have own: "parse_config_document example_env ?p =
               parse_document_origin example_env ?p (initial_origin ?p)
                 (fixup_options (members ?p) (initial_options ?p))"
    using parse_document_failure [of example_env ?p ?og "fixup_options (members ?p) (initial_options ?p)"
        "Runtime_error ''not found''" example_options]
      new_file_origin_invariant [of "''/etc/missing.conf''" example_options]
    by blast
  show ?thesis
    using parse_document_failure [of example_env ?p ?og "fixup_options (members ?p) (initial_options ?p)"
        "Runtime_error ''not found''" example_options, THEN conjunct1]
      own io
      parse_document_failure [of example_env ?p ?og "fixup_options (members ?p) example_options"
        "Runtime_error ''not found''" example_options]
      parse_document_failure [of example_env ?p ?og "fixup_options (members ?p) strict_options"
        "Runtime_error ''not found''" strict_options]
      parse_document_failure [of example_env ?p "Simple_config_origin ''settings of the application''"
        "fixup_options (members ?p) labelled_options"
        "Runtime_error ''not found''" labelled_options "''settings of the application''"]
      raw msg og d
    by (simp add: members_new_file fixup_allow_missing del: what.simps)
qed


text \<open>
  Here too the origin is not the source's own on every call: for the same source and
  options as above, the root of the document has the origin
  \<open>settings of the application\<close>, not \<open>file: /etc/missing.conf\<close>.
\<close>

theorem parse_document_failure_counterexample:
  "raw_parse_document example_env (new_file ''/etc/missing.conf'' example_options)
       (Simple_config_origin ''settings of the application'')
       (fixup_options (Parseable_file ''/etc/missing.conf'') labelled_options)
     = Inl (Runtime_error ''not found'')
   \<and> get_allow_missing (fixup_options (Parseable_file ''/etc/missing.conf'') labelled_options)
   \<and> initial_origin (new_file ''/etc/missing.conf'' example_options)
       = Simple_config_origin ''file: /etc/missing.conf''
   \<and> parse_document example_env (new_file ''/etc/missing.conf'' example_options) labelled_options
       = Inr (Simple_config_document
                (Config_node_root [Config_node_object []]
                   (Simple_config_origin ''settings of the application''))
                (fixup_options (Parseable_file ''/etc/missing.conf'') labelled_options))
   \<and> parse_document example_env (new_file ''/etc/missing.conf'' example_options) labelled_options
       \<noteq> Inr (Simple_config_document
                (Config_node_root [Config_node_object []]
                   (initial_origin (new_file ''/etc/missing.conf'' example_options)))
                (fixup_options (Parseable_file ''/etc/missing.conf'') labelled_options))"
proof -
  have a: "get_allow_missing (fixup_options (Parseable_file ''/etc/missing.conf'') labelled_options)"
    by (simp add: fixup_allow_missing labelled_options_def example_options_def)
  show ?thesis
    using a by (simp add: missing_file_raw_document labelled_parse_document missing_conf_origin)
qed

subsection \<open>The stack of sources being parsed\<close>

text \<open>
  C2. A call of \<open>parse(options)\<close> that finds 50 entries (or more) on the thread's stack
  fails at once, before anything is read or parsed and with the stack left as it was: it
  raises a parse error at the source's origin whose message says that include statements
  are nested more than 50 times and ends with a trace of one line per source on the
  stack, oldest first. The line of a level is a tab, the name of that level and a
  newline; the name is what \<open>to_string()\<close> gives, which is the name of the dynamic type of
  the source at that level (\<open>typeid(*this).name()\<close>, lines 145--147).
\<close>

theorem parse_depth_cap:
  assumes "50 \<le> length pstack"
  shows "parse env p options (Some pstack) =
           (Inl (Parse_exception (initial_origin p)
                   (''include statements nested more than 50 times, you probably have a cycle in your includes. Trace:''
                      @ [CHR 0x0A]
                      @ concat (map (\<lambda>q. [CHR 0x09] @ typeid_name env (dynamic_class (members q))
                                          @ [CHR 0x0A]) pstack))),
            Some pstack)"
  using assms parse_at_cap [of pstack env p options]
  by (simp add: stacktrace_concat to_string_def MAX_INCLUDE_DEPTH_def)

theorem parse_depth_cap_witness:
  "50 \<le> length (replicate 49 (new_file ''/etc/app.conf'' example_options)
                   @ [new_string ''a = 1'' example_options])
   \<and> parse example_env (new_file ''/etc/app.conf'' example_options) example_options
         (Some (replicate 49 (new_file ''/etc/app.conf'' example_options)
                  @ [new_string ''a = 1'' example_options]))
       = (Inl (Parse_exception (Simple_config_origin ''file: /etc/app.conf'')
                 (''include statements nested more than 50 times, you probably have a cycle in your includes. Trace:''
                    @ [CHR 0x0A]
                    @ concat (replicate 49 ([CHR 0x09] @ ''parseable_file'' @ [CHR 0x0A]))
                    @ [CHR 0x09] @ ''parseable_string'' @ [CHR 0x0A])),
          Some (replicate 49 (new_file ''/etc/app.conf'' example_options)
                  @ [new_string ''a = 1'' example_options]))"
proof -
  let ?p = "new_file ''/etc/app.conf'' example_options"
  let ?s = "new_string ''a = 1'' example_options"
  have n: "typeid_name example_env (dynamic_class (members ?p)) = ''parseable_file''"
    "typeid_name example_env (dynamic_class (members ?s)) = ''parseable_string''"
    by (simp_all add: members_new_file new_string_def post_construct_def Let_def example_env_def)
  have og: "initial_origin ?p = Simple_config_origin ''file: /etc/app.conf''"
    by (simp add: initial_origin_new_file example_options_def)
  show ?thesis
    using parse_depth_cap [of "replicate 49 ?p @ [?s]" example_env ?p example_options]
    by (simp add: n og map_replicate_const)
qed

text \<open>
  C3. Let the value parser return the thread's stack as it found it whenever the stack
  is not empty (it reaches the stack only through nested calls of \<open>parse\<close>, which behave
  so by this very statement). Then a call of \<open>parse(options)\<close> that passes the depth check
  leaves the depth of the stack as it was, whether it returns a value or raises: the
  entry it pushed is popped on both paths. The stack is made when the call finds none,
  so the source is parsed with itself as the last entry, and the stack is released when
  the pop leaves it empty.
\<close>

theorem parse_restores_stack:
  assumes nested: "\<forall>node og opts q x v.
                     snd (config_parser_parse env node og opts q (Some (x # v))) = Some (x # v)"
    and room: "depth st < MAX_INCLUDE_DEPTH"
  shows "depth (snd (parse env p options st)) = depth st
         \<and> snd (parse env p options st) = (if depth st = 0 then None else st)
         \<and> (\<exists>r. parse_value env p options (Some ((case st of None \<Rightarrow> [] | Some v \<Rightarrow> v) @ [p]))
                   = (r, Some ((case st of None \<Rightarrow> [] | Some v \<Rightarrow> v) @ [p]))
                \<and> fst (parse env p options st) =
                    (case r of Inl e \<Rightarrow> Inl e | Inr v \<Rightarrow> force_parsed_to_object v))"
proof -
  let ?pstack = "case st of None \<Rightarrow> [] | Some v \<Rightarrow> v"
  have len: "length ?pstack < MAX_INCLUDE_DEPTH" "length ?pstack = depth st"
    using room by (simp_all add: depth_def split: option.splits)
  have shape: "st = None \<and> ?pstack = [] \<or> st = Some ?pstack"
    by (cases st) simp_all
  from parse_below_cap [OF nested len(1) shape, of p options]
  obtain r where r: "parse_value env p options (Some (?pstack @ [p])) = (r, Some (?pstack @ [p]))"
    "parse env p options st =
       (case r of Inl e \<Rightarrow> Inl e | Inr v \<Rightarrow> force_parsed_to_object v,
        if ?pstack = [] then None else Some ?pstack)"
    by blast
  have "snd (parse env p options st) = (if depth st = 0 then None else st)"
    using r(2) len(2) by (cases st) (auto simp: depth_def)
  moreover from this have "depth (snd (parse env p options st)) = depth st"
    by (simp add: depth_def)
  ultimately show ?thesis using r by auto
qed

theorem parse_restores_stack_witness:
  "depth None < MAX_INCLUDE_DEPTH
   \<and> parse including_env (new_file ''/etc/app.conf'' example_options) example_options None
       = (Inr (Simple_config_object (Simple_config_origin ''file: /etc/db.conf (not found)'') []),
          None)
   \<and> parse including_env (new_file ''/etc/app.conf'' example_options) strict_options None
       = (Inl (Io_exception (Simple_config_origin ''file: /etc/app.conf'')
                 ''file: /etc/db.conf: not found''),
          None)"
proof -
  let ?p = "new_file ''/etc/app.conf'' example_options"
  have room: "depth None < MAX_INCLUDE_DEPTH"
    by (simp add: depth_def MAX_INCLUDE_DEPTH_def)
  have s1: "snd (parse including_env ?p example_options None) = None"
    using parse_restores_stack [OF including_env_nested room, of ?p example_options]
    by (simp add: depth_def)
  have s2: "snd (parse including_env ?p strict_options None) = None"
    using parse_restores_stack [OF including_env_nested room, of ?p strict_options]
    by (simp add: depth_def)
  have f1: "fst (parse including_env ?p example_options None) =
              Inr (Simple_config_object (Simple_config_origin ''file: /etc/db.conf (not found)'') [])"
    using including_run [of example_options] by (simp add: example_options_def)
  have f2: "fst (parse including_env ?p strict_options None) =
              Inl (Io_exception (Simple_config_origin ''file: /etc/app.conf'')
                     ''file: /etc/db.conf: not found'')"
    using including_run [of strict_options] by (simp add: strict_options_def)
  show ?thesis
    using room s1 s2 f1 f2 by (simp add: prod_eq_iff)
qed

subsection \<open>The root of a parsed source\<close>

text \<open>
  C8. Both overloads of \<open>parse\<close> pass the value that \<open>parse_value\<close> returned through
  \<open>force_parsed_to_object\<close>: an object is returned unchanged, any other value raises a
  wrong-type error that carries the origin of the value.
\<close>

theorem parse_forces_object:
  "(parse_value env p (default_parse_options env) st = (Inr v, st') \<longrightarrow>
      parse_default env p st = (force_parsed_to_object v, st'))
   \<and> (depth st < MAX_INCLUDE_DEPTH
        \<and> parse_value env p options (Some ((case st of None \<Rightarrow> [] | Some s \<Rightarrow> s) @ [p])) = (Inr v, st') \<longrightarrow>
      parse env p options st = (force_parsed_to_object v, scope_exit st'))
   \<and> force_parsed_to_object v =
       (if is_config_object v then Inr v
        else Inl (Wrong_type_exception (origin v) [] ''object at file root'' (value_type_name v)))"
  by (auto simp add: parse_default_def parse_def depth_def force_parsed_to_object_cases
      split: option.splits)

theorem parse_forces_object_witness:
  "depth None < MAX_INCLUDE_DEPTH
   \<and> parse example_env (new_file ''/etc/list.json'' example_options) example_options None
       = (Inl (Wrong_type_exception (Simple_config_origin ''file: /etc/list.json'') []
                 ''object at file root'' ''list''), None)
   \<and> parse example_env (new_file ''/etc/app.conf'' example_options) example_options None
       = (Inr (Simple_config_object (Simple_config_origin ''file: /etc/app.conf'') []), None)
   \<and> parse_default example_env (new_file ''/etc/list.json'' example_options) None
       = (Inl (Wrong_type_exception (Simple_config_origin ''file: /etc/list.json'') []
                 ''object at file root'' ''list''), None)
   \<and> parse_default example_env (new_file ''/etc/app.conf'' example_options) None
       = (Inr (Simple_config_object (Simple_config_origin ''file: /etc/app.conf'') []), None)"
proof -
  let ?l = "new_file ''/etc/list.json'' example_options"
  let ?a = "new_file ''/etc/app.conf'' example_options"
  let ?lv = "Non_object_value (Simple_config_origin ''file: /etc/list.json'') ''list''"
  let ?av = "Simple_config_object (Simple_config_origin ''file: /etc/app.conf'') []"
  have room: "depth None < MAX_INCLUDE_DEPTH"
    by (simp add: depth_def MAX_INCLUDE_DEPTH_def)
  have d: "get_origin_description example_options = None"
    "get_origin_description (default_parse_options example_env) = None"
    by (simp_all add: example_options_def example_env_def)
  note runs = list_json_parse_value [OF d(1)] list_json_parse_value [OF d(2)]
    app_conf_parse_value [OF d(1)] app_conf_parse_value [OF d(2)]
  show ?thesis
    using room runs
      parse_forces_object [where env = example_env and p = ?l and st = None and v = ?lv
        and st' = None and options = example_options]
      parse_forces_object [where env = example_env and p = ?l and st = None and v = ?lv
        and st' = "Some [?l]" and options = example_options]
      parse_forces_object [where env = example_env and p = ?a and st = None and v = ?av
        and st' = None and options = example_options]
      parse_forces_object [where env = example_env and p = ?a and st = None and v = ?av
        and st' = "Some [?a]" and options = example_options]
    by simp
qed

subsection \<open>The includer\<close>

text \<open>
  C6. The options returned by \<open>fixup_options\<close> carry the completed composition of the
  includer the application installed with the default includer as its fallback, or the
  completed default includer when none was installed; the default includer can always be
  reached, and so can an installed one. Each entry point (\<open>parse_value\<close>,
  \<open>parse_document\<close>, and through \<open>parse_value\<close> both overloads of \<open>parse\<close>) works with
  the options so fixed.
\<close>

theorem fixup_composes_includer:
  "get_includer (fixup_options s base_options) =
     make_full (if get_includer base_options = Null_includer then Default_includer
                else With_fallback (get_includer base_options) Default_includer)
   \<and> reaches Default_includer (get_includer (fixup_options s base_options))
   \<and> reaches (get_includer base_options) (get_includer (fixup_options s base_options))
       = (get_includer base_options \<noteq> Null_includer)
   \<and> parse_value env p base_options st =
       parse_value_origin env p
         (case get_origin_description base_options of
            Some d \<Rightarrow> Simple_config_origin d
          | None \<Rightarrow> initial_origin p)
         (fixup_options (members p) base_options) st
   \<and> parse_document env p base_options =
       parse_document_origin env p
         (case get_origin_description base_options of
            Some d \<Rightarrow> Simple_config_origin d
          | None \<Rightarrow> initial_origin p)
         (fixup_options (members p) base_options)
   \<and> (depth st < MAX_INCLUDE_DEPTH \<longrightarrow>
        fst (parse env p base_options st) =
          (case fst (parse_value_origin env p
                       (case get_origin_description base_options of
                          Some d \<Rightarrow> Simple_config_origin d
                        | None \<Rightarrow> initial_origin p)
                       (fixup_options (members p) base_options)
                       (Some ((case st of None \<Rightarrow> [] | Some v \<Rightarrow> v) @ [p]))) of
             Inl e \<Rightarrow> Inl e
           | Inr v \<Rightarrow> force_parsed_to_object v))
   \<and> fst (parse_default env p st) =
       (case fst (parse_value_origin env p
                    (case get_origin_description (default_parse_options env) of
                       Some d \<Rightarrow> Simple_config_origin d
                     | None \<Rightarrow> initial_origin p)
                    (fixup_options (members p) (default_parse_options env)) st) of
          Inl e \<Rightarrow> Inl e
        | Inr v \<Rightarrow> force_parsed_to_object v)"
proof -
  have inc: "get_includer (fixup_options s base_options) =
     make_full (if get_includer base_options = Null_includer then Default_includer
                else With_fallback (get_includer base_options) Default_includer)"
    by (simp add: fixup_includer make_full_def)
  have r1: "reaches Default_includer (get_includer (fixup_options s base_options))"
    by (simp only: fixup_includer reaches_default simp_thms split: if_split)
  have r2: "reaches (get_includer base_options) (get_includer (fixup_options s base_options))
       = (get_includer base_options \<noteq> Null_includer)"
  proof (cases "get_includer base_options = Null_includer")
    case True
    then show ?thesis by (simp add: fixup_includer)
  next
    case False
    then show ?thesis
      using reaches_installed [OF False] by (simp only: fixup_includer if_False simp_thms)
  qed
  have pp: "fst (parse env p base_options st) =
              (case fst (parse_value env p base_options
                           (Some ((case st of None \<Rightarrow> [] | Some v \<Rightarrow> v) @ [p]))) of
                 Inl e \<Rightarrow> Inl e | Inr v \<Rightarrow> force_parsed_to_object v)"
    if "depth st < MAX_INCLUDE_DEPTH"
    by (simp add: parse_below_cap_unfold [OF that] split: prod.splits sum.splits)
  have p0: "fst (parse_default env p st) =
              (case fst (parse_value env p (default_parse_options env) st) of
                 Inl e \<Rightarrow> Inl e | Inr v \<Rightarrow> force_parsed_to_object v)"
    by (simp add: parse_default_def split: prod.splits sum.splits)
  from inc r1 r2 pp [unfolded parse_value_unfold] p0 [unfolded parse_value_unfold]
  show ?thesis
    by (intro conjI impI) (simp_all only: parse_value_unfold parse_document_unfold)
qed

theorem fixup_composes_includer_witness:
  "get_includer (fixup_options (Parseable_file ''/etc/app.conf'') strict_options)
     = Full_includer (With_fallback (App_includer ''app'') Default_includer)
   \<and> get_includer (fixup_options (Parseable_string ''a = 1'') example_options)
     = Full_includer Default_includer
   \<and> reaches Default_includer
        (get_includer (fixup_options (Parseable_file ''/etc/app.conf'') strict_options))
   \<and> reaches (App_includer ''app'')
        (get_includer (fixup_options (Parseable_file ''/etc/app.conf'') strict_options))
   \<and> depth None < MAX_INCLUDE_DEPTH
   \<and> fst (parse example_env (new_file ''/etc/app.conf'' example_options) strict_options None) =
       (case fst (parse_value_origin example_env (new_file ''/etc/app.conf'' example_options)
                    (Simple_config_origin ''file: /etc/app.conf'')
                    (fixup_options (Parseable_file ''/etc/app.conf'') strict_options)
                    (Some [new_file ''/etc/app.conf'' example_options])) of
          Inl e \<Rightarrow> Inl e
        | Inr v \<Rightarrow> force_parsed_to_object v)"
proof -
  let ?p = "new_file ''/etc/app.conf'' example_options"
  have i: "get_includer strict_options = App_includer ''app''"
    "get_includer example_options = Null_includer"
    "get_origin_description strict_options = None"
    by (simp_all add: strict_options_def example_options_def)
  have room: "depth None < MAX_INCLUDE_DEPTH"
    by (simp add: depth_def MAX_INCLUDE_DEPTH_def)
  have og: "initial_origin ?p = Simple_config_origin ''file: /etc/app.conf''"
    by (simp add: initial_origin_new_file example_options_def)
  show ?thesis
    using fixup_composes_includer [where s = "Parseable_file ''/etc/app.conf''"
        and base_options = strict_options and env = example_env and p = ?p and st = None]
      fixup_composes_includer [where s = "Parseable_string ''a = 1''"
        and base_options = example_options and env = example_env and p = ?p and st = None,
        THEN conjunct1]
      i room og
    by (simp add: make_full_def members_new_file)
qed

end
